theory Spec2Isabelle
  imports Main "HOL-Library.Word"
begin

unbundle bit_operations_syntax

section \<open>Data model (koven.h)\<close>

text \<open>
  The C integer types are fixed-width words. \<open>int16_t\<close> and \<open>uint16_t\<close> are both
  16-bit words; a signed field is read with \<open>sint\<close> and compared with the signed
  orders \<open><s\<close> and \<open>\<le>s\<close>, an unsigned one with \<open>unat\<close>.
\<close>

type_synonym uint8_t = "8 word"
type_synonym uint16_t = "16 word"
type_synonym int16_t = "16 word"

text \<open>
  The enum \<open>State\<close> with its enumerator values 0 to 3. An oven whose \<open>state\<close> field
  holds any other integer is outside the model.
\<close>

datatype State = STATE_IDLE | STATE_PREHEATING | STATE_BAKING | STATE_COOLING_DOWN

fun State_value :: "State \<Rightarrow> uint8_t" where
  "State_value STATE_IDLE = 0"
| "State_value STATE_PREHEATING = 1"
| "State_value STATE_BAKING = 2"
| "State_value STATE_COOLING_DOWN = 3"

text \<open>The enum \<open>Action\<close>; \<open>CommandPayload.action\<close> stores it in a \<open>uint8_t\<close>.\<close>

definition ACTION_START :: uint8_t where
  "ACTION_START = 1"

definition ACTION_STOP :: uint8_t where
  "ACTION_STOP = 2"

record CommandPayload =
  action :: uint8_t
  temperature :: int16_t
  duration :: int16_t

text \<open>
  \<open>EventPayload\<close> has the same field names as \<open>Koven\<close>; its fields carry the
  prefix \<open>e_\<close> here. The declaration order is the one of the packed C struct.
\<close>

record EventPayload =
  e_state :: uint8_t
  e_current_temperature :: int16_t
  e_remaining_time :: int16_t
  e_programmed_duration :: int16_t
  e_programmed_temperature :: int16_t

record Koven =
  state :: State
  current_temperature :: int16_t
  remaining_time :: int16_t
  programmed_duration :: int16_t
  programmed_temperature :: int16_t

section \<open>Oven simulation (koven.c)\<close>

definition ROOM_TEMPERATURE :: int16_t where
  "ROOM_TEMPERATURE = 25"

text \<open>
  Functions that mutate \<open>*koven\<close> return the updated struct. A pointer argument that
  may be \<open>NULL\<close> is an \<open>option\<close>: \<open>None\<close> is the null pointer, \<open>Some v\<close> points to
  a struct holding \<open>v\<close>.
\<close>

definition koven_init :: "Koven \<Rightarrow> Koven" where
  "koven_init koven =
     koven\<lparr>state := STATE_IDLE,
           current_temperature := ROOM_TEMPERATURE,
           remaining_time := - 1,
           programmed_duration := - 1,
           programmed_temperature := - 1\<rparr>"

fun koven_execute :: "Koven option \<Rightarrow> CommandPayload option \<Rightarrow> Koven option" where
  "koven_execute None cmd = None"
| "koven_execute (Some koven) None = Some koven"
| "koven_execute (Some koven) (Some cmd) =
     Some (if action cmd = ACTION_START then
             (if state koven = STATE_IDLE then
                koven\<lparr>state := STATE_PREHEATING,
                      programmed_duration := duration cmd,
                      programmed_temperature := temperature cmd\<rparr>
              else koven)
           else if action cmd = ACTION_STOP then
             koven\<lparr>state := STATE_IDLE,
                   remaining_time := - 1,
                   programmed_temperature := - 1,
                   programmed_duration := - 1\<rparr>
           else koven)"

text \<open>
  \<open>koven_tick\<close> returns the oven and the event after the call. The guard at the top
  returns before anything is written when either pointer is null.
\<close>

fun koven_tick :: "Koven option \<Rightarrow> EventPayload option \<Rightarrow> Koven option \<times> EventPayload option" where
  "koven_tick None event = (None, event)"
| "koven_tick (Some koven) None = (Some koven, None)"
| "koven_tick (Some koven) (Some event) =
     (let koven' =
        (if state koven = STATE_PREHEATING then
           (if current_temperature koven <s programmed_temperature koven then
              koven\<lparr>current_temperature := current_temperature koven + 1\<rparr>
            else
              koven\<lparr>state := STATE_BAKING, remaining_time := programmed_duration koven\<rparr>)
         else if state koven = STATE_BAKING then
           (if 0 <s remaining_time koven then
              koven\<lparr>remaining_time := remaining_time koven - 1\<rparr>
            else if ROOM_TEMPERATURE <s current_temperature koven then
              koven\<lparr>state := STATE_COOLING_DOWN,
                    programmed_temperature := - 1,
                    programmed_duration := - 1\<rparr>
            else koven_init koven)
         else if state koven = STATE_COOLING_DOWN then
           (if ROOM_TEMPERATURE <s current_temperature koven then
              koven\<lparr>current_temperature := current_temperature koven - 1\<rparr>
            else koven_init koven)
         else koven)
      in (Some koven',
          Some (event\<lparr>e_state := State_value (state koven'),
                      e_current_temperature := current_temperature koven',
                      e_remaining_time := remaining_time koven',
                      e_programmed_duration := programmed_duration koven',
                      e_programmed_temperature := programmed_temperature koven'\<rparr>)))"

section \<open>Frame codec (protocol.h, protocol.c)\<close>

definition MSG_TYPE_COMMAND :: uint8_t where
  "MSG_TYPE_COMMAND = 0x01"

definition MSG_TYPE_EVENT :: uint8_t where
  "MSG_TYPE_EVENT = 0x02"

text \<open>
  \<open>sizeof(CommandPayload)\<close> and \<open>sizeof(EventPayload)\<close>: both structs are packed, so
  the sizes are the sums of the field sizes, 1 + 2 + 2 and 1 + 2 + 2 + 2 + 2.
\<close>

definition sizeof_CommandPayload :: nat where
  "sizeof_CommandPayload = 5"

definition sizeof_EventPayload :: nat where
  "sizeof_EventPayload = 9"

text \<open>
  A byte buffer is a list of bytes and a pointer into it is the list with an offset.
  Values of type \<open>size_t\<close> are natural numbers: the only arithmetic on them adds
  small constants. The inner loop of \<open>crc16_usb\<close> runs \<open>j\<close> from 0 to 7, the outer
  one runs \<open>i\<close> from 0 to \<open>len - 1\<close> (the parameter \<open>length\<close> of the source).
\<close>

function crc16_bits :: "nat \<Rightarrow> uint16_t \<Rightarrow> uint16_t" where
  "crc16_bits j crc =
     (if j < 8 then
        crc16_bits (j + 1)
          (if crc AND 0x0001 \<noteq> 0 then drop_bit 1 crc XOR 0xA001 else drop_bit 1 crc)
      else crc)"
  by pat_completeness auto
termination
  by (relation "measure (\<lambda>(j, crc). 8 - j)") auto

declare crc16_bits.simps [simp del]

function crc16_loop :: "uint8_t list \<Rightarrow> nat \<Rightarrow> nat \<Rightarrow> uint16_t \<Rightarrow> uint16_t" where
  "crc16_loop data len i crc =
     (if i < len then crc16_loop data len (i + 1) (crc16_bits 0 (crc XOR ucast (data ! i)))
      else crc)"
  by pat_completeness auto
termination
  by (relation "measure (\<lambda>(data, len, i, crc). len - i)") auto

declare crc16_loop.simps [simp del]

definition crc16_usb :: "uint8_t list \<Rightarrow> nat \<Rightarrow> uint16_t" where
  "crc16_usb data len = crc16_loop data len 0 0xFFFF XOR 0xFFFF"

text \<open>
  The little-endian helpers. The ones that write take the destination buffer and the
  offset of \<open>bytes[0]\<close> in it and return the buffer after the two stores.
\<close>

definition uint16_to_le :: "uint16_t \<Rightarrow> uint8_t list \<Rightarrow> nat \<Rightarrow> uint8_t list" where
  "uint16_to_le val bytes p =
     (bytes[p := ucast (val AND 0xFF)])[p + 1 := ucast (drop_bit 8 val AND 0xFF)]"

definition le_to_uint16 :: "uint8_t list \<Rightarrow> nat \<Rightarrow> uint16_t" where
  "le_to_uint16 bytes p = ucast (bytes ! p) OR push_bit 8 (ucast (bytes ! (p + 1)))"

definition le_to_int16 :: "uint8_t list \<Rightarrow> nat \<Rightarrow> int16_t" where
  "le_to_int16 bytes p = le_to_uint16 bytes p"

definition int16_to_le :: "int16_t \<Rightarrow> uint8_t list \<Rightarrow> nat \<Rightarrow> uint8_t list" where
  "int16_to_le val bytes p = uint16_to_le val bytes p"

text \<open>
  \<open>unmarshall_command_frame\<close> returns the \<open>int\<close> result and \<open>*cmd\<close> after the call.
  The diagnostics it prints on \<open>stderr\<close> are not part of what it returns and are
  left out. The payload pointer is \<open>&data[3]\<close>, so \<open>payload[k]\<close> is \<open>data ! (3 + k)\<close>.
\<close>

fun unmarshall_command_frame ::
  "uint8_t list option \<Rightarrow> nat \<Rightarrow> CommandPayload option \<Rightarrow> int \<times> CommandPayload option" where
  "unmarshall_command_frame None len cmd = (- 1, cmd)"
| "unmarshall_command_frame (Some data) len None = (- 1, None)"
| "unmarshall_command_frame (Some data) len (Some cmd) =
     (if len < 10 then (- 1, Some cmd)
      else
        let msg_type = data ! 0;
            payload_size = le_to_uint16 data 1
        in if msg_type \<noteq> MSG_TYPE_COMMAND then (- 1, Some cmd)
           else if unat payload_size \<noteq> sizeof_CommandPayload then (- 1, Some cmd)
           else
             let expected_len = 1 + 2 + unat payload_size + 2
             in if len < expected_len then (- 1, Some cmd)
                else
                  let received_crc = le_to_uint16 data (3 + unat payload_size);
                      calculated_crc = crc16_usb data (3 + unat payload_size)
                  in if received_crc \<noteq> calculated_crc then (- 1, Some cmd)
                     else (0, Some (cmd\<lparr>action := data ! (3 + 0),
                                         temperature := le_to_int16 data (3 + 1),
                                         duration := le_to_int16 data (3 + 3)\<rparr>)))"

text \<open>
  \<open>marshall_event_frame\<close> returns the \<open>int\<close> result and the buffer after the call.
  The stores follow the source's order; \<open>payload[k]\<close> is \<open>buffer[3 + k]\<close>.
\<close>

fun marshall_event_frame ::
  "EventPayload option \<Rightarrow> uint8_t list option \<Rightarrow> nat \<Rightarrow> int \<times> uint8_t list option" where
  "marshall_event_frame None buffer buffer_size = (- 1, buffer)"
| "marshall_event_frame (Some event) None buffer_size = (- 1, None)"
| "marshall_event_frame (Some event) (Some buffer) buffer_size =
     (let payload_size = sizeof_EventPayload;
          frame_size = 1 + 2 + payload_size + 2
      in if buffer_size < frame_size then (- 1, Some buffer)
         else
           let b0 = buffer[0 := MSG_TYPE_EVENT];
               b1 = uint16_to_le (of_nat payload_size) b0 1;
               b2 = b1[3 + 0 := e_state event];
               b3 = int16_to_le (e_current_temperature event) b2 (3 + 1);
               b4 = int16_to_le (e_remaining_time event) b3 (3 + 3);
               b5 = int16_to_le (e_programmed_duration event) b4 (3 + 5);
               b6 = int16_to_le (e_programmed_temperature event) b5 (3 + 7);
               crc = crc16_usb b6 (3 + payload_size);
               b7 = uint16_to_le crc b6 (3 + payload_size)
           in (int frame_size, Some b7))"

section \<open>Call sequences (main.c, mqtt_client.c)\<close>

text \<open>
  \<open>main\<close> initialises the one oven with \<open>koven_init\<close> and hands it to the client,
  which from then on only calls \<open>koven_execute\<close> (for each command frame that decodes)
  and \<open>koven_tick\<close> (once per second) on it. A reachable oven is the result of such a
  sequence of calls; \<open>koven0\<close> is the content of the uninitialised struct.
\<close>

datatype call = Execute "CommandPayload option" | Tick "EventPayload option"

fun step :: "Koven \<Rightarrow> call \<Rightarrow> Koven" where
  "step koven (Execute cmd) =
     (case koven_execute (Some koven) cmd of Some koven' \<Rightarrow> koven' | None \<Rightarrow> koven)"
| "step koven (Tick event) =
     (case koven_tick (Some koven) event of (Some koven', event') \<Rightarrow> koven' | (None, event') \<Rightarrow> koven)"

definition run :: "Koven \<Rightarrow> call list \<Rightarrow> Koven" where
  "run koven0 calls = foldl step (koven_init koven0) calls"

text \<open>
  The use of the sentinel -1 that holds of every reachable oven: \<open>remaining_time\<close> is
  -1 in Idle and Preheating and is not positive in CoolingDown, and both programmed
  fields are -1 in Idle and CoolingDown.
\<close>

definition sentinel_inv :: "Koven \<Rightarrow> bool" where
  "sentinel_inv koven \<longleftrightarrow>
     (state koven = STATE_IDLE \<or> state koven = STATE_PREHEATING \<longrightarrow>
        remaining_time koven = - 1) \<and>
     (state koven = STATE_COOLING_DOWN \<longrightarrow> sint (remaining_time koven) \<le> 0) \<and>
     (state koven = STATE_IDLE \<or> state koven = STATE_COOLING_DOWN \<longrightarrow>
        programmed_temperature koven = - 1 \<and> programmed_duration koven = - 1)"

text \<open>
  The value of two bytes read as a little-endian 16-bit integer, unsigned and signed in two's
  complement, written out arithmetically. The statements about the codec use these
  readings of the wire format, not the helpers of the source.
\<close>

definition le_unsigned16 :: "uint8_t \<Rightarrow> uint8_t \<Rightarrow> nat" where
  "le_unsigned16 lo hi = unat lo + 256 * unat hi"

definition le_signed16 :: "uint8_t \<Rightarrow> uint8_t \<Rightarrow> int" where
  "le_signed16 lo hi =
     (let u = uint lo + 256 * uint hi in if u < 32768 then u else u - 65536)"

section \<open>Signed arithmetic without wrap-around\<close>

text \<open>
  Adding 1 to a signed 16-bit value that is below another one, and subtracting 1 from
  one that is above a representable bound, do not overflow.
\<close>

lemma sint_incr_below:
  fixes x y :: "16 word"
  assumes "sint x < sint y"
  shows "sint (x + 1) = sint x + 1"
proof -
  have a: "sint y < 2 ^ 15" using sint_lt [of y] by simp
  have b: "- (2 ^ 15) \<le> sint x" using sint_ge [of x] by simp
  from assms a have c: "sint x + 1 < 2 ^ 15" by simp
  from b have d: "- (2 ^ 15) \<le> sint x + 1" by simp
  have "sint (x + 1) = signed_take_bit 15 (sint x + 1)"
    by (simp add: sint_word_ariths)
  also have "\<dots> = sint x + 1"
    using c d by (simp add: signed_take_bit_int_eq_self)
  finally show ?thesis .
qed

lemma sint_decr_above_const:
  fixes x :: "16 word"
  assumes "c < sint x" and "- (2 ^ 15) \<le> c"
  shows "sint (x - 1) = sint x - 1"
proof -
  have a: "sint x < 2 ^ 15" using sint_lt [of x] by simp
  from assms have d: "- (2 ^ 15) \<le> sint x - 1" by simp
  from a have c: "sint x - 1 < 2 ^ 15" by simp
  have "sint (x - 1) = signed_take_bit 15 (sint x - 1)"
    by (simp add: sint_word_ariths)
  also have "\<dots> = sint x - 1"
    using c d by (simp add: signed_take_bit_int_eq_self)
  finally show ?thesis .
qed

section \<open>Oven simulation: transitions and commands\<close>

text \<open>
  Claim C1. With both pointers present, \<open>koven_tick\<close> applies the transition of the
  state the oven is in before the tick. Preheating below the programmed temperature adds
  1 to \<open>current_temperature\<close> (as a signed number, without wrap-around) and stays
  Preheating; Preheating otherwise moves to Baking, sets \<open>remaining_time\<close> to
  \<open>programmed_duration\<close> and changes nothing else. Baking with \<open>remaining_time > 0\<close>
  subtracts 1 from it; Baking otherwise moves to CoolingDown with both programmed
  fields set to -1 and \<open>remaining_time\<close> kept when the temperature is above 25, and
  reinitialises the oven (Idle, 25, -1, -1, -1) when it is at most 25. CoolingDown above
  25 subtracts 1 from the temperature, and otherwise reinitialises the oven. Idle changes
  nothing. The event written is the copy of the five fields of the oven after the update.
\<close>

theorem koven_tick_transition:
  "case koven_tick (Some koven) (Some event) of
     (Some koven', Some event') \<Rightarrow>
       (state koven = STATE_PREHEATING \<and>
          sint (current_temperature koven) < sint (programmed_temperature koven) \<longrightarrow>
            koven' = koven\<lparr>current_temperature := current_temperature koven + 1\<rparr> \<and>
            sint (current_temperature koven') = sint (current_temperature koven) + 1) \<and>
       (state koven = STATE_PREHEATING \<and>
          \<not> sint (current_temperature koven) < sint (programmed_temperature koven) \<longrightarrow>
            koven' = koven\<lparr>state := STATE_BAKING, remaining_time := programmed_duration koven\<rparr>) \<and>
       (state koven = STATE_BAKING \<and> 0 < sint (remaining_time koven) \<longrightarrow>
            koven' = koven\<lparr>remaining_time := remaining_time koven - 1\<rparr> \<and>
            sint (remaining_time koven') = sint (remaining_time koven) - 1) \<and>
       (state koven = STATE_BAKING \<and> \<not> 0 < sint (remaining_time koven) \<and>
          25 < sint (current_temperature koven) \<longrightarrow>
            koven' = koven\<lparr>state := STATE_COOLING_DOWN,
                           programmed_temperature := - 1, programmed_duration := - 1\<rparr>) \<and>
       (state koven = STATE_BAKING \<and> \<not> 0 < sint (remaining_time koven) \<and>
          sint (current_temperature koven) \<le> 25 \<longrightarrow>
            koven' = \<lparr>state = STATE_IDLE, current_temperature = 25, remaining_time = - 1,
                      programmed_duration = - 1, programmed_temperature = - 1\<rparr>) \<and>
       (state koven = STATE_COOLING_DOWN \<and> 25 < sint (current_temperature koven) \<longrightarrow>
            koven' = koven\<lparr>current_temperature := current_temperature koven - 1\<rparr> \<and>
            sint (current_temperature koven') = sint (current_temperature koven) - 1) \<and>
       (state koven = STATE_COOLING_DOWN \<and> sint (current_temperature koven) \<le> 25 \<longrightarrow>
            koven' = \<lparr>state = STATE_IDLE, current_temperature = 25, remaining_time = - 1,
                      programmed_duration = - 1, programmed_temperature = - 1\<rparr>) \<and>
       (state koven = STATE_IDLE \<longrightarrow> koven' = koven) \<and>
       event' = \<lparr>e_state = State_value (state koven'),
                 e_current_temperature = current_temperature koven',
                 e_remaining_time = remaining_time koven',
                 e_programmed_duration = programmed_duration koven',
                 e_programmed_temperature = programmed_temperature koven'\<rparr>
   | _ \<Rightarrow> False"
  by (cases "state koven")
     (auto simp: Let_def word_sless_alt koven_init_def ROOM_TEMPERATURE_def
                 sint_incr_below sint_decr_above_const [of 25] sint_decr_above_const [of 0])

text \<open>
  The transition theorem at one oven for each of its eight cases: the two Preheating
  cases, the three Baking cases, the two CoolingDown cases and Idle.
\<close>

theorem koven_tick_transition_witness:
  "(let event = \<lparr>e_state = 0, e_current_temperature = 0, e_remaining_time = 0,
                  e_programmed_duration = 0, e_programmed_temperature = 0\<rparr>
    in koven_tick
         (Some \<lparr>state = STATE_PREHEATING, current_temperature = 25, remaining_time = - 1,
                 programmed_duration = 60, programmed_temperature = 30\<rparr>)
         (Some event) =
         (Some \<lparr>state = STATE_PREHEATING, current_temperature = 26, remaining_time = - 1,
                 programmed_duration = 60, programmed_temperature = 30\<rparr>,
          Some \<lparr>e_state = 1, e_current_temperature = 26, e_remaining_time = - 1,
                 e_programmed_duration = 60, e_programmed_temperature = 30\<rparr>) \<and>
       koven_tick
         (Some \<lparr>state = STATE_PREHEATING, current_temperature = 30, remaining_time = - 1,
                 programmed_duration = 60, programmed_temperature = 30\<rparr>)
         (Some event) =
         (Some \<lparr>state = STATE_BAKING, current_temperature = 30, remaining_time = 60,
                 programmed_duration = 60, programmed_temperature = 30\<rparr>,
          Some \<lparr>e_state = 2, e_current_temperature = 30, e_remaining_time = 60,
                 e_programmed_duration = 60, e_programmed_temperature = 30\<rparr>) \<and>
       koven_tick
         (Some \<lparr>state = STATE_BAKING, current_temperature = 30, remaining_time = 1,
                 programmed_duration = 60, programmed_temperature = 30\<rparr>)
         (Some event) =
         (Some \<lparr>state = STATE_BAKING, current_temperature = 30, remaining_time = 0,
                 programmed_duration = 60, programmed_temperature = 30\<rparr>,
          Some \<lparr>e_state = 2, e_current_temperature = 30, e_remaining_time = 0,
                 e_programmed_duration = 60, e_programmed_temperature = 30\<rparr>) \<and>
       koven_tick
         (Some \<lparr>state = STATE_BAKING, current_temperature = 30, remaining_time = 0,
                 programmed_duration = 60, programmed_temperature = 30\<rparr>)
         (Some event) =
         (Some \<lparr>state = STATE_COOLING_DOWN, current_temperature = 30, remaining_time = 0,
                 programmed_duration = - 1, programmed_temperature = - 1\<rparr>,
          Some \<lparr>e_state = 3, e_current_temperature = 30, e_remaining_time = 0,
                 e_programmed_duration = - 1, e_programmed_temperature = - 1\<rparr>) \<and>
       koven_tick
         (Some \<lparr>state = STATE_BAKING, current_temperature = 25, remaining_time = 0,
                 programmed_duration = 60, programmed_temperature = 25\<rparr>)
         (Some event) =
         (Some \<lparr>state = STATE_IDLE, current_temperature = 25, remaining_time = - 1,
                 programmed_duration = - 1, programmed_temperature = - 1\<rparr>,
          Some \<lparr>e_state = 0, e_current_temperature = 25, e_remaining_time = - 1,
                 e_programmed_duration = - 1, e_programmed_temperature = - 1\<rparr>) \<and>
       koven_tick
         (Some \<lparr>state = STATE_COOLING_DOWN, current_temperature = 26, remaining_time = 0,
                 programmed_duration = - 1, programmed_temperature = - 1\<rparr>)
         (Some event) =
         (Some \<lparr>state = STATE_COOLING_DOWN, current_temperature = 25, remaining_time = 0,
                 programmed_duration = - 1, programmed_temperature = - 1\<rparr>,
          Some \<lparr>e_state = 3, e_current_temperature = 25, e_remaining_time = 0,
                 e_programmed_duration = - 1, e_programmed_temperature = - 1\<rparr>) \<and>
       koven_tick
         (Some \<lparr>state = STATE_COOLING_DOWN, current_temperature = 25, remaining_time = 0,
                 programmed_duration = - 1, programmed_temperature = - 1\<rparr>)
         (Some event) =
         (Some \<lparr>state = STATE_IDLE, current_temperature = 25, remaining_time = - 1,
                 programmed_duration = - 1, programmed_temperature = - 1\<rparr>,
          Some \<lparr>e_state = 0, e_current_temperature = 25, e_remaining_time = - 1,
                 e_programmed_duration = - 1, e_programmed_temperature = - 1\<rparr>) \<and>
       koven_tick
         (Some \<lparr>state = STATE_IDLE, current_temperature = 80, remaining_time = - 1,
                 programmed_duration = - 1, programmed_temperature = - 1\<rparr>)
         (Some event) =
         (Some \<lparr>state = STATE_IDLE, current_temperature = 80, remaining_time = - 1,
                 programmed_duration = - 1, programmed_temperature = - 1\<rparr>,
          Some \<lparr>e_state = 0, e_current_temperature = 80, e_remaining_time = - 1,
                 e_programmed_duration = - 1, e_programmed_temperature = - 1\<rparr>))"
proof -
  have evaluated: ?thesis
    by (simp add: word_sless_alt koven_init_def ROOM_TEMPERATURE_def)
  from koven_tick_transition
         [where koven = "\<lparr>state = STATE_PREHEATING, current_temperature = 25, remaining_time = - 1,
                          programmed_duration = 60, programmed_temperature = 30\<rparr>"
            and event = "\<lparr>e_state = 0, e_current_temperature = 0, e_remaining_time = 0,
                          e_programmed_duration = 0, e_programmed_temperature = 0\<rparr>"]
       evaluated
  show ?thesis
    by (rule conjunct2 [OF conjI])
qed

text \<open>
  Claim C2. With both pointers present, \<open>koven_execute\<close> treats a Start command in
  state Idle by moving to Preheating and storing the command's temperature and duration,
  with \<open>current_temperature\<close> and \<open>remaining_time\<close> unchanged; a Start command in
  any other state changes nothing; a Stop command sets the state to Idle and
  \<open>remaining_time\<close>, \<open>programmed_temperature\<close> and \<open>programmed_duration\<close> to -1 and
  keeps \<open>current_temperature\<close>; any other action value changes nothing.
\<close>

theorem koven_execute_semantics:
  "case koven_execute (Some koven) (Some cmd) of
     Some koven' \<Rightarrow>
       (action cmd = ACTION_START \<and> state koven = STATE_IDLE \<longrightarrow>
          koven' = koven\<lparr>state := STATE_PREHEATING,
                         programmed_temperature := temperature cmd,
                         programmed_duration := duration cmd\<rparr> \<and>
          current_temperature koven' = current_temperature koven \<and>
          remaining_time koven' = remaining_time koven) \<and>
       (action cmd = ACTION_START \<and> state koven \<noteq> STATE_IDLE \<longrightarrow> koven' = koven) \<and>
       (action cmd = ACTION_STOP \<longrightarrow>
          koven' = \<lparr>state = STATE_IDLE, current_temperature = current_temperature koven,
                    remaining_time = - 1, programmed_duration = - 1,
                    programmed_temperature = - 1\<rparr>) \<and>
       (action cmd \<noteq> ACTION_START \<and> action cmd \<noteq> ACTION_STOP \<longrightarrow> koven' = koven)
   | None \<Rightarrow> False"
  by (auto simp: ACTION_START_def ACTION_STOP_def)

text \<open>
  The command theorem at a Start in Idle, a Start in Baking, a Stop in Baking and an
  unknown action value 7 in Preheating.
\<close>

theorem koven_execute_semantics_witness:
  "koven_execute
     (Some \<lparr>state = STATE_IDLE, current_temperature = 25, remaining_time = - 1,
             programmed_duration = - 1, programmed_temperature = - 1\<rparr>)
     (Some \<lparr>action = 1, temperature = 200, duration = 480\<rparr>) =
     Some \<lparr>state = STATE_PREHEATING, current_temperature = 25, remaining_time = - 1,
           programmed_duration = 480, programmed_temperature = 200\<rparr> \<and>
   koven_execute
     (Some \<lparr>state = STATE_BAKING, current_temperature = 200, remaining_time = 100,
             programmed_duration = 480, programmed_temperature = 200\<rparr>)
     (Some \<lparr>action = 1, temperature = 180, duration = 60\<rparr>) =
     Some \<lparr>state = STATE_BAKING, current_temperature = 200, remaining_time = 100,
           programmed_duration = 480, programmed_temperature = 200\<rparr> \<and>
   koven_execute
     (Some \<lparr>state = STATE_BAKING, current_temperature = 200, remaining_time = 100,
             programmed_duration = 480, programmed_temperature = 200\<rparr>)
     (Some \<lparr>action = 2, temperature = 0, duration = 0\<rparr>) =
     Some \<lparr>state = STATE_IDLE, current_temperature = 200, remaining_time = - 1,
           programmed_duration = - 1, programmed_temperature = - 1\<rparr> \<and>
   koven_execute
     (Some \<lparr>state = STATE_PREHEATING, current_temperature = 75, remaining_time = - 1,
             programmed_duration = 480, programmed_temperature = 200\<rparr>)
     (Some \<lparr>action = 7, temperature = 180, duration = 60\<rparr>) =
     Some \<lparr>state = STATE_PREHEATING, current_temperature = 75, remaining_time = - 1,
           programmed_duration = 480, programmed_temperature = 200\<rparr>"
proof -
  have evaluated: ?thesis
    by (simp add: ACTION_START_def ACTION_STOP_def)
  from koven_execute_semantics
         [where koven = "\<lparr>state = STATE_IDLE, current_temperature = 25, remaining_time = - 1,
                          programmed_duration = - 1, programmed_temperature = - 1\<rparr>"
            and cmd = "\<lparr>action = 1, temperature = 200, duration = 480\<rparr>"]
       evaluated
  show ?thesis
    by (rule conjunct2 [OF conjI])
qed

section \<open>Null references in \<open>koven_tick\<close>\<close>

text \<open>
  Claim C7, as stated, fails: a tick with a null event does not update the oven. A
  Preheating oven at 25 with target 30 stays at 25 when the event pointer is null and goes
  to 26 when it is not.
\<close>

theorem koven_tick_null_event_counterexample:
  "fst (koven_tick
          (Some \<lparr>state = STATE_PREHEATING, current_temperature = 25, remaining_time = - 1,
                  programmed_duration = 60, programmed_temperature = 30\<rparr>)
          None) =
     Some \<lparr>state = STATE_PREHEATING, current_temperature = 25, remaining_time = - 1,
            programmed_duration = 60, programmed_temperature = 30\<rparr> \<and>
   fst (koven_tick
          (Some \<lparr>state = STATE_PREHEATING, current_temperature = 25, remaining_time = - 1,
                  programmed_duration = 60, programmed_temperature = 30\<rparr>)
          (Some \<lparr>e_state = 0, e_current_temperature = 0, e_remaining_time = 0,
                  e_programmed_duration = 0, e_programmed_temperature = 0\<rparr>)) =
     Some \<lparr>state = STATE_PREHEATING, current_temperature = 26, remaining_time = - 1,
            programmed_duration = 60, programmed_temperature = 30\<rparr>"
  by (simp add: word_sless_alt)

text \<open>
  Claim C7, amended. A null event pointer makes \<open>koven_tick\<close> a no-op exactly as a null
  oven pointer does: the oven is returned unchanged and no event is written.
\<close>

theorem koven_tick_null_noop:
  "koven_tick (Some koven) None = (Some koven, None) \<and> koven_tick None event = (None, event)"
  by simp

text \<open>The no-op at a Preheating oven that a tick would heat, and at a null oven.\<close>

theorem koven_tick_null_noop_witness:
  "koven_tick
     (Some \<lparr>state = STATE_PREHEATING, current_temperature = 25, remaining_time = - 1,
             programmed_duration = 60, programmed_temperature = 30\<rparr>)
     None =
     (Some \<lparr>state = STATE_PREHEATING, current_temperature = 25, remaining_time = - 1,
             programmed_duration = 60, programmed_temperature = 30\<rparr>,
      None) \<and>
   koven_tick None
     (Some \<lparr>e_state = 0, e_current_temperature = 0, e_remaining_time = 0,
             e_programmed_duration = 0, e_programmed_temperature = 0\<rparr>) =
     (None,
      Some \<lparr>e_state = 0, e_current_temperature = 0, e_remaining_time = 0,
             e_programmed_duration = 0, e_programmed_temperature = 0\<rparr>)"
  by (rule koven_tick_null_noop)

section \<open>Invariants of reachable ovens\<close>

lemma foldl_step_inv:
  assumes "\<And>k c. P k \<Longrightarrow> P (step k c)"
  shows "P k \<Longrightarrow> P (foldl step k calls)"
  by (induction calls arbitrary: k) (auto intro: assms)

lemma sentinel_inv_init: "sentinel_inv (koven_init koven)"
  by (simp add: sentinel_inv_def koven_init_def)

lemma sentinel_inv_step: "sentinel_inv koven \<Longrightarrow> sentinel_inv (step koven c)"
proof (cases c)
  case (Execute cmd)
  assume "sentinel_inv koven"
  then show ?thesis using Execute
    by (cases cmd) (auto simp: sentinel_inv_def)
next
  case (Tick event)
  assume "sentinel_inv koven"
  then show ?thesis using Tick
    by (cases event; cases "state koven")
       (auto simp: sentinel_inv_def Let_def koven_init_def word_sless_alt)
qed

lemma room_temperature_init: "25 \<le> sint (current_temperature (koven_init koven0))"
  by (simp add: koven_init_def ROOM_TEMPERATURE_def)

lemma room_temperature_step:
  "25 \<le> sint (current_temperature koven) \<Longrightarrow> 25 \<le> sint (current_temperature (step koven c))"
proof (cases c)
  case (Execute cmd)
  assume "25 \<le> sint (current_temperature koven)"
  then show ?thesis using Execute
    by (cases cmd) auto
next
  case (Tick event)
  assume "25 \<le> sint (current_temperature koven)"
  then show ?thesis using Tick
    by (cases event; cases "state koven")
       (auto simp: Let_def koven_init_def word_sless_alt ROOM_TEMPERATURE_def
                   sint_incr_below sint_decr_above_const [of 25])
qed

lemma sentinel_inv_run: "sentinel_inv (run koven0 calls)"
  unfolding run_def by (rule foldl_step_inv [OF sentinel_inv_step sentinel_inv_init])

text \<open>
  Claim C6, as stated, fails: after a Start with temperature 26 and duration 1 and four
  ticks the oven is in CoolingDown, not Baking, and \<open>remaining_time\<close> is 0, not -1.
\<close>

theorem sentinel_remaining_time_counterexample:
  "state
     (run \<lparr>state = STATE_BAKING, current_temperature = 0, remaining_time = 0,
                programmed_duration = 0, programmed_temperature = 0\<rparr>
             (Execute (Some \<lparr>action = 1, temperature = 26, duration = 1\<rparr>) #
              replicate 4 (Tick (Some \<lparr>e_state = 0, e_current_temperature = 0,
                                       e_remaining_time = 0, e_programmed_duration = 0,
                                       e_programmed_temperature = 0\<rparr>)))) \<noteq> STATE_BAKING \<and>
   remaining_time
     (run \<lparr>state = STATE_BAKING, current_temperature = 0, remaining_time = 0,
                programmed_duration = 0, programmed_temperature = 0\<rparr>
             (Execute (Some \<lparr>action = 1, temperature = 26, duration = 1\<rparr>) #
              replicate 4 (Tick (Some \<lparr>e_state = 0, e_current_temperature = 0,
                                       e_remaining_time = 0, e_programmed_duration = 0,
                                       e_programmed_temperature = 0\<rparr>)))) \<noteq> - 1"
  by code_simp

text \<open>
  Claim C6, amended. In every oven reached from \<open>koven_init\<close> by calls of
  \<open>koven_execute\<close> and \<open>koven_tick\<close>, \<open>remaining_time\<close> is -1 whenever the state is
  Idle or Preheating, \<open>programmed_temperature\<close> and \<open>programmed_duration\<close> are -1
  whenever the state is Idle or CoolingDown, and in CoolingDown \<open>remaining_time\<close> is the
  value Baking ended with, which is not positive.
\<close>

theorem sentinel_inv_reachable:
  "(state (run koven0 calls) = STATE_IDLE \<or> state (run koven0 calls) = STATE_PREHEATING \<longrightarrow>
      remaining_time (run koven0 calls) = - 1) \<and>
   (state (run koven0 calls) = STATE_COOLING_DOWN \<longrightarrow>
      sint (remaining_time (run koven0 calls)) \<le> 0) \<and>
   (state (run koven0 calls) = STATE_IDLE \<or> state (run koven0 calls) = STATE_COOLING_DOWN \<longrightarrow>
      programmed_temperature (run koven0 calls) = - 1 \<and>
      programmed_duration (run koven0 calls) = - 1)"
  using sentinel_inv_run [of koven0 calls] by (simp only: sentinel_inv_def)

text \<open>
  The invariant at the oven of the counterexample: a Start with temperature 26 and
  duration 1, then four ticks, which ends in CoolingDown with \<open>remaining_time\<close> 0.
\<close>

theorem sentinel_inv_reachable_witness:
  "(let koven = run \<lparr>state = STATE_BAKING, current_temperature = 0, remaining_time = 0,
                      programmed_duration = 0, programmed_temperature = 0\<rparr>
                  (Execute (Some \<lparr>action = 1, temperature = 26, duration = 1\<rparr>) #
                   replicate 4 (Tick (Some \<lparr>e_state = 0, e_current_temperature = 0,
                                            e_remaining_time = 0, e_programmed_duration = 0,
                                            e_programmed_temperature = 0\<rparr>)))
    in state koven = STATE_COOLING_DOWN \<and> remaining_time koven = 0 \<and>
       programmed_temperature koven = - 1 \<and> programmed_duration koven = - 1)"
proof -
  have evaluated: ?thesis
    by code_simp
  from sentinel_inv_reachable
         [where ?koven0.0 = "\<lparr>state = STATE_BAKING, current_temperature = 0,
                                remaining_time = 0, programmed_duration = 0,
                                programmed_temperature = 0\<rparr>"
            and calls = "Execute (Some \<lparr>action = 1, temperature = 26, duration = 1\<rparr>) #
                         replicate 4 (Tick (Some \<lparr>e_state = 0, e_current_temperature = 0,
                                                  e_remaining_time = 0, e_programmed_duration = 0,
                                                  e_programmed_temperature = 0\<rparr>))"]
       evaluated
  show ?thesis
    by (rule conjunct2 [OF conjI])
qed

text \<open>
  Claim C10. In every oven reached from \<open>koven_init\<close> by calls of \<open>koven_execute\<close> and
  \<open>koven_tick\<close>, \<open>current_temperature\<close>, read as a signed number, is at least 25.
\<close>

theorem room_temperature_reachable: "25 \<le> sint (current_temperature (run koven0 calls))"
  unfolding run_def
  using room_temperature_step room_temperature_init
  by (rule foldl_step_inv [where P = "\<lambda>k. 25 \<le> sint (current_temperature k)"])

text \<open>
  The bound after a Start with target 27, two ticks, a Stop and one more tick: the oven is
  Idle at 27.
\<close>

theorem room_temperature_reachable_witness:
  "(let event = \<lparr>e_state = 0, e_current_temperature = 0, e_remaining_time = 0,
                  e_programmed_duration = 0, e_programmed_temperature = 0\<rparr>;
        koven = run \<lparr>state = STATE_BAKING, current_temperature = 0, remaining_time = 0,
                      programmed_duration = 0, programmed_temperature = 0\<rparr>
                  [Execute (Some \<lparr>action = 1, temperature = 27, duration = 60\<rparr>),
                   Tick (Some event), Tick (Some event),
                   Execute (Some \<lparr>action = 2, temperature = 0, duration = 0\<rparr>),
                   Tick (Some event)]
    in 25 \<le> sint (current_temperature koven) \<and> current_temperature koven = 27 \<and>
       state koven = STATE_IDLE)"
  unfolding Let_def by (rule conjI [OF room_temperature_reachable]) code_simp

section \<open>Frame codec: little-endian helpers and the CRC loop\<close>

lemma unat_ucast_byte: "unat (ucast (b :: 8 word) :: 16 word) = unat b"
proof -
  have "unat b < 2 ^ 8" using unsigned_less [of b] by simp
  then have "unat b < 2 ^ 16" by simp
  then show ?thesis by (simp add: unsigned_ucast_eq take_bit_nat_eq_self)
qed

lemma unat_push_bit_byte: "unat (push_bit 8 (ucast (b :: 8 word)) :: 16 word) = 256 * unat b"
proof -
  have "unat b < 2 ^ 8" using unsigned_less [of b] by simp
  then have "unat b * 256 < 65536" by simp
  then show ?thesis
    by (simp add: push_bit_eq_mult unat_word_ariths unat_ucast_byte)
qed

lemma byte_or_eq_add: "(ucast (a :: 8 word) :: 16 word) OR push_bit 8 (ucast (b :: 8 word)) = ucast a + push_bit 8 (ucast b)"
  by (rule disjunctive_add [symmetric]) (auto simp: bit_simps dest: bit_imp_le_length)

lemma unat_le_to_uint16:
  "unat (le_to_uint16 bytes p) = unat (bytes ! p) + 256 * unat (bytes ! (p + 1))"
proof -
  have "unat (bytes ! p) < 2 ^ 8" "unat (bytes ! (p + 1)) < 2 ^ 8"
    using unsigned_less [of "bytes ! p"] unsigned_less [of "bytes ! (p + 1)"] by simp_all
  then have "unat (bytes ! p) + 256 * unat (bytes ! (p + 1)) < 65536" by simp
  then show ?thesis
    unfolding le_to_uint16_def byte_or_eq_add
    by (simp add: unat_word_ariths unat_ucast_byte unat_push_bit_byte)
qed

lemma sint_16_uint: "sint (w :: 16 word) = (if uint w < 32768 then uint w else uint w - 65536)"
proof -
  define u where "u = uint w"
  have u: "0 \<le> u" "u < 65536"
    using uint_lt2p [of w] by (simp_all add: u_def)
  have "signed_take_bit 15 u = (u + 32768) mod 65536 - 32768"
    by (simp add: signed_take_bit_eq_take_bit_shift take_bit_eq_mod)
  also have "\<dots> = (if u < 32768 then u else u - 65536)"
  proof (cases "u < 32768")
    case True
    with u have "(u + 32768) mod 65536 = u + 32768" by simp
    with True show ?thesis by simp
  next
    case False
    have "(u + 32768) mod 65536 = (u - 32768 + 1 * 65536) mod 65536"
      by (rule arg_cong [where f = "\<lambda>x. x mod 65536"]) simp
    also have "\<dots> = (u - 32768) mod 65536"
      by (rule mod_mult_self1)
    also have "\<dots> = u - 32768"
      using u False by (intro mod_pos_pos_trivial) simp_all
    finally show ?thesis using False by simp
  qed
  finally show ?thesis
    by (simp add: sint_uint u_def)
qed

lemma uint_le_to_uint16:
  "uint (le_to_uint16 bytes p) = uint (bytes ! p) + 256 * uint (bytes ! (p + 1))"
proof -
  have "uint (le_to_uint16 bytes p) = int (unat (le_to_uint16 bytes p))"
    by simp
  also have "\<dots> = int (unat (bytes ! p) + 256 * unat (bytes ! (p + 1)))"
    by (simp only: unat_le_to_uint16)
  also have "\<dots> = uint (bytes ! p) + 256 * uint (bytes ! (p + 1))"
    by simp
  finally show ?thesis .
qed

lemma and_0xFF: "(x :: 16 word) AND 0xFF = take_bit 8 x"
proof -
  have "(0xFF :: 16 word) = mask 8"
    by (simp add: mask_eq_exp_minus_1)
  then show ?thesis
    by (simp only: take_bit_eq_mask)
qed

lemma le_to_uint16_uint16_to_le:
  "p + 1 < length bytes \<Longrightarrow> le_to_uint16 (uint16_to_le val bytes p) p = val"
  unfolding le_to_uint16_def uint16_to_le_def and_0xFF
  by (rule bit_word_eqI) (auto simp: bit_simps dest: bit_imp_le_length)

lemma crc16_loop_cong:
  "(\<And>k. i \<le> k \<Longrightarrow> k < len \<Longrightarrow> d1 ! k = d2 ! k) \<Longrightarrow>
   crc16_loop d1 len i crc = crc16_loop d2 len i crc"
proof (induction d1 len i crc rule: crc16_loop.induct)
  case (1 data len i crc)
  show ?case
  proof (cases "i < len")
    case True
    have "crc16_loop data len (i + 1) (crc16_bits 0 (crc XOR ucast (data ! i))) =
          crc16_loop d2 len (i + 1) (crc16_bits 0 (crc XOR ucast (data ! i)))"
      using True "1.prems" by (intro "1.IH") simp_all
    moreover have "data ! i = d2 ! i"
      using True "1.prems" by simp
    ultimately show ?thesis
      using True by (simp add: crc16_loop.simps [of data] crc16_loop.simps [of d2])
  next
    case False
    then show ?thesis
      by (simp add: crc16_loop.simps [of data] crc16_loop.simps [of d2])
  qed
qed

lemma crc16_usb_cong:
  "(\<And>k. k < len \<Longrightarrow> d1 ! k = d2 ! k) \<Longrightarrow> crc16_usb d1 len = crc16_usb d2 len"
  unfolding crc16_usb_def by (simp add: crc16_loop_cong [of 0 len d1 d2])

lemma sint_le_to_int16:
  "sint (le_to_int16 bytes p) = le_signed16 (bytes ! p) (bytes ! (p + 1))"
  unfolding le_to_int16_def sint_16_uint uint_le_to_uint16 le_signed16_def Let_def ..

lemma unat_le_to_uint16_unsigned16:
  "unat (le_to_uint16 bytes p) = le_unsigned16 (bytes ! p) (bytes ! (p + 1))"
  by (simp only: unat_le_to_uint16 le_unsigned16_def)

section \<open>Frame codec: CRC\<close>

text \<open>
  Claim C5. \<open>crc16_usb\<close> returns 0xB4C8 for the nine ASCII bytes of "123456789" and
  0x0000 for length 0 (whatever the pointer), and its result is a function of the first
  \<open>len\<close> bytes only: two buffers that agree there have the same CRC.
\<close>

theorem crc16_usb_reference:
  "crc16_usb (map (\<lambda>c. of_nat (of_char c)) ''123456789'') 9 = 0xB4C8 \<and>
   crc16_usb data 0 = 0x0000 \<and>
   ((\<forall>k<len. d1 ! k = d2 ! k) \<longrightarrow> crc16_usb d1 len = crc16_usb d2 len)"
proof (intro conjI impI)
  show "crc16_usb (map (\<lambda>c. of_nat (of_char c)) ''123456789'') 9 = 0xB4C8"
    by code_simp
  show "crc16_usb data 0 = 0x0000"
    by (simp add: crc16_usb_def crc16_loop.simps [of data 0])
  show "crc16_usb d1 len = crc16_usb d2 len" if "\<forall>k<len. d1 ! k = d2 ! k"
    using that by (intro crc16_usb_cong) simp
qed

text \<open>
  The determinism at the five bytes 01 02 03 04 05 of the repository's test, read once
  from a buffer of five bytes and once from a longer one.
\<close>

theorem crc16_usb_reference_witness:
  "crc16_usb [0x01, 0x02, 0x03, 0x04, 0x05] 5 =
   crc16_usb [0x01, 0x02, 0x03, 0x04, 0x05, 0xAA, 0xBB] 5"
proof -
  have agree: "\<forall>k<5. [0x01, 0x02, 0x03, 0x04, 0x05 :: uint8_t] ! k =
                      [0x01, 0x02, 0x03, 0x04, 0x05, 0xAA, 0xBB] ! k"
    by (simp add: nth_Cons')
  with crc16_usb_reference
         [where ?d1.0 = "[0x01, 0x02, 0x03, 0x04, 0x05]"
            and ?d2.0 = "[0x01, 0x02, 0x03, 0x04, 0x05, 0xAA, 0xBB]" and len = 5]
  show ?thesis by blast
qed

section \<open>Frame codec: the wire format of both directions\<close>

text \<open>
  The two bytes \<open>uint16_to_le\<close> stores read back, arithmetically, as the value stored;
  \<open>marshall_event_frame\<close> on a buffer of at least 14 bytes returns 14 and the buffer whose
  first 14 bytes are the frame; \<open>unmarshall_command_frame\<close> is one test on the bytes.
\<close>

lemma le_signed16_uint16_to_le:
  assumes "p + 1 < length bytes" and "q = p + 1"
  shows "le_signed16 (uint16_to_le val bytes p ! p) (uint16_to_le val bytes p ! q) = sint val"
proof -
  have "sint (le_to_int16 (uint16_to_le val bytes p) p) = sint val"
    using assms by (simp add: le_to_int16_def le_to_uint16_uint16_to_le)
  then show ?thesis
    using assms by (simp add: sint_le_to_int16)
qed

lemma le_unsigned16_uint16_to_le:
  assumes "p + 1 < length bytes" and "q = p + 1"
  shows "le_unsigned16 (uint16_to_le val bytes p ! p) (uint16_to_le val bytes p ! q) = unat val"
proof -
  have "unat (le_to_uint16 (uint16_to_le val bytes p) p) = unat val"
    using assms by (simp add: le_to_uint16_uint16_to_le)
  then show ?thesis
    using assms by (simp add: unat_le_to_uint16_unsigned16)
qed

lemma list_update_Cons_numeral:
  "(x # xs)[numeral n := v] = x # xs[pred_numeral n := v]"
  by (simp add: numeral_eq_Suc)

lemma list_2_decomp:
  assumes "Suc (Suc n) \<le> length (xs :: 'a list)"
  obtains x0 x1 rest where "xs = x0 # x1 # rest" and "n \<le> length rest"
  using assms by (auto simp: Suc_le_length_iff)

lemma list_14_decomp:
  assumes "14 \<le> length (xs :: 'a list)"
  obtains x0 x1 x2 x3 x4 x5 x6 x7 x8 x9 x10 x11 x12 x13 rest
  where "xs = x0 # x1 # x2 # x3 # x4 # x5 # x6 # x7 # x8 # x9 # x10 # x11 # x12 # x13 # rest"
proof -
  have "Suc (Suc 12) \<le> length xs" using assms by simp
  then obtain x0 x1 r1 where 1: "xs = x0 # x1 # r1" and "12 \<le> length r1"
    by (rule list_2_decomp)
  then have "Suc (Suc 10) \<le> length r1" by simp
  then obtain x2 x3 r2 where 2: "r1 = x2 # x3 # r2" and "10 \<le> length r2"
    by (rule list_2_decomp)
  then have "Suc (Suc 8) \<le> length r2" by simp
  then obtain x4 x5 r3 where 3: "r2 = x4 # x5 # r3" and "8 \<le> length r3"
    by (rule list_2_decomp)
  then have "Suc (Suc 6) \<le> length r3" by simp
  then obtain x6 x7 r4 where 4: "r3 = x6 # x7 # r4" and "6 \<le> length r4"
    by (rule list_2_decomp)
  then have "Suc (Suc 4) \<le> length r4" by simp
  then obtain x8 x9 r5 where 5: "r4 = x8 # x9 # r5" and "4 \<le> length r5"
    by (rule list_2_decomp)
  then have "Suc (Suc 2) \<le> length r5" by simp
  then obtain x10 x11 r6 where 6: "r5 = x10 # x11 # r6" and "2 \<le> length r6"
    by (rule list_2_decomp)
  then have "Suc (Suc 0) \<le> length r6" by simp
  then obtain x12 x13 r7 where 7: "r6 = x12 # x13 # r7" and "0 \<le> length r7"
    by (rule list_2_decomp)
  show thesis
    by (rule that [of x0 x1 x2 x3 x4 x5 x6 x7 x8 x9 x10 x11 x12 x13 r7])
       (simp only: 1 2 3 4 5 6 7)
qed

lemma marshall_event_frame_wire:
  assumes "14 \<le> length buffer"
  shows "marshall_event_frame (Some event) (Some buffer) (length buffer) =
     (let body = [0x02, 0x09, 0x00, e_state event,
                  ucast (e_current_temperature event AND 0xFF),
                  ucast (drop_bit 8 (e_current_temperature event) AND 0xFF),
                  ucast (e_remaining_time event AND 0xFF),
                  ucast (drop_bit 8 (e_remaining_time event) AND 0xFF),
                  ucast (e_programmed_duration event AND 0xFF),
                  ucast (drop_bit 8 (e_programmed_duration event) AND 0xFF),
                  ucast (e_programmed_temperature event AND 0xFF),
                  ucast (drop_bit 8 (e_programmed_temperature event) AND 0xFF)];
          crc = crc16_usb body 12
      in (14, Some (body @ [ucast (crc AND 0xFF), ucast (drop_bit 8 crc AND 0xFF)] @
                    drop 14 buffer)))"
proof -
  obtain x0 x1 x2 x3 x4 x5 x6 x7 x8 x9 x10 x11 x12 x13 rest
    where buffer: "buffer = x0 # x1 # x2 # x3 # x4 # x5 # x6 # x7 # x8 # x9 # x10 # x11 # x12 # x13 # rest"
    using assms by (rule list_14_decomp)
  have crc: "crc16_usb (b0 # b1 # b2 # b3 # b4 # b5 # b6 # b7 # b8 # b9 # b10 # b11 # m # others) 12 =
             crc16_usb [b0, b1, b2, b3, b4, b5, b6, b7, b8, b9, b10, b11] 12"
    for b0 b1 b2 b3 b4 b5 b6 b7 b8 b9 b10 b11 m :: uint8_t and others
    by (rule crc16_usb_cong) (simp add: nth_Cons')
  show ?thesis
    unfolding buffer
    by (simp add: Let_def sizeof_EventPayload_def MSG_TYPE_EVENT_def int16_to_le_def
                  uint16_to_le_def list_update_Cons_numeral crc)
qed

lemma crc16_usb_append:
  "length body = len \<Longrightarrow> crc16_usb (body @ others) len = crc16_usb body len"
  by (rule crc16_usb_cong) (simp add: nth_append)

lemma marshall_event_frame_short:
  "buffer_size < 14 \<Longrightarrow>
   marshall_event_frame (Some event) (Some buffer) buffer_size = (- 1, Some buffer)"
  by (simp add: Let_def sizeof_EventPayload_def)

lemma marshall_event_frame_ok:
  assumes "14 \<le> length buffer"
  obtains b where
    "marshall_event_frame (Some event) (Some buffer) (length buffer) = (14, Some b)"
    "take 12 b =
       [0x02, 0x09, 0x00, e_state event,
        ucast (e_current_temperature event AND 0xFF),
        ucast (drop_bit 8 (e_current_temperature event) AND 0xFF),
        ucast (e_remaining_time event AND 0xFF),
        ucast (drop_bit 8 (e_remaining_time event) AND 0xFF),
        ucast (e_programmed_duration event AND 0xFF),
        ucast (drop_bit 8 (e_programmed_duration event) AND 0xFF),
        ucast (e_programmed_temperature event AND 0xFF),
        ucast (drop_bit 8 (e_programmed_temperature event) AND 0xFF)]"
    "b ! 12 = ucast (crc16_usb b 12 AND 0xFF)"
    "b ! 13 = ucast (drop_bit 8 (crc16_usb b 12) AND 0xFF)"
    "drop 14 b = drop 14 buffer"
    "length b = length buffer"
proof -
  define body where "body =
       [0x02, 0x09, 0x00, e_state event,
        ucast (e_current_temperature event AND 0xFF),
        ucast (drop_bit 8 (e_current_temperature event) AND 0xFF),
        ucast (e_remaining_time event AND 0xFF),
        ucast (drop_bit 8 (e_remaining_time event) AND 0xFF),
        ucast (e_programmed_duration event AND 0xFF),
        ucast (drop_bit 8 (e_programmed_duration event) AND 0xFF),
        ucast (e_programmed_temperature event AND 0xFF),
        ucast (drop_bit 8 (e_programmed_temperature event) AND 0xFF)]"
  define crc where "crc = crc16_usb body 12"
  define b where "b = body @ [ucast (crc AND 0xFF), ucast (drop_bit 8 crc AND 0xFF)] @ drop 14 buffer"
  have len: "length body = 12"
    by (simp add: body_def)
  have crc_b: "crc16_usb b 12 = crc"
    unfolding b_def crc_def using len by (rule crc16_usb_append)
  show thesis
  proof (rule that [of b])
    show "marshall_event_frame (Some event) (Some buffer) (length buffer) = (14, Some b)"
      using marshall_event_frame_wire [OF assms, of event]
      by (simp only: Let_def b_def crc_def body_def)
    show "take 12 b = [0x02, 0x09, 0x00, e_state event,
        ucast (e_current_temperature event AND 0xFF),
        ucast (drop_bit 8 (e_current_temperature event) AND 0xFF),
        ucast (e_remaining_time event AND 0xFF),
        ucast (drop_bit 8 (e_remaining_time event) AND 0xFF),
        ucast (e_programmed_duration event AND 0xFF),
        ucast (drop_bit 8 (e_programmed_duration event) AND 0xFF),
        ucast (e_programmed_temperature event AND 0xFF),
        ucast (drop_bit 8 (e_programmed_temperature event) AND 0xFF)]"
      using len by (simp add: b_def) (simp add: body_def)
    show "b ! 12 = ucast (crc16_usb b 12 AND 0xFF)"
      unfolding crc_b using len by (simp add: b_def nth_append)
    show "b ! 13 = ucast (drop_bit 8 (crc16_usb b 12) AND 0xFF)"
      unfolding crc_b using len by (simp add: b_def nth_append)
    show "drop 14 b = drop 14 buffer"
      using len by (simp add: b_def)
    show "length b = length buffer"
      using len assms by (simp add: b_def)
  qed
qed

lemma le_signed16_bytes:
  "le_signed16 (ucast (val AND 0xFF)) (ucast (drop_bit 8 val AND 0xFF)) = sint (val :: 16 word)"
  using le_signed16_uint16_to_le [of 0 "[0, 0]" 1 val]
  by (simp add: uint16_to_le_def)

lemma le_unsigned16_bytes:
  "le_unsigned16 (ucast (val AND 0xFF)) (ucast (drop_bit 8 val AND 0xFF)) = unat (val :: 16 word)"
  using le_unsigned16_uint16_to_le [of 0 "[0, 0]" 1 val]
  by (simp add: uint16_to_le_def)

lemma nth_take_12: "k < 12 \<Longrightarrow> b ! k = take 12 b ! k"
  by simp

lemma unmarshall_command_frame_Some:
  "unmarshall_command_frame (Some data) len (Some cmd) =
     (if len < 10 \<or> data ! 0 \<noteq> 0x01 \<or> unat (le_to_uint16 data 1) \<noteq> 5 \<or>
         le_to_uint16 data 8 \<noteq> crc16_usb data 8
      then (- 1, Some cmd)
      else (0, Some \<lparr>action = data ! 3, temperature = le_to_int16 data 4,
                      duration = le_to_int16 data 6\<rparr>))"
  by (simp add: Let_def MSG_TYPE_COMMAND_def sizeof_CommandPayload_def)

lemma word16_eq_iff_unat: "(v :: 16 word) = w \<longleftrightarrow> unat v = unat w"
  by (simp add: word_unat_eq_iff)

lemma unmarshall_command_frame_wire:
  "unmarshall_command_frame (Some data) (length data) (Some cmd) =
     (let payload_size = le_unsigned16 (data ! 1) (data ! 2)
      in if length data < 10 \<or>
            data ! 0 \<noteq> 0x01 \<or>
            payload_size \<noteq> 5 \<or>
            length data < 1 + 2 + payload_size + 2 \<or>
            le_unsigned16 (data ! (3 + payload_size)) (data ! (3 + payload_size + 1)) \<noteq>
              unat (crc16_usb data (3 + payload_size))
         then (- 1, Some cmd)
         else (0, Some \<lparr>action = data ! 3, temperature = le_to_int16 data 4,
                         duration = le_to_int16 data 6\<rparr>))"
proof -
  have crc: "le_to_uint16 data 8 = crc16_usb data 8 \<longleftrightarrow>
             le_unsigned16 (data ! 8) (data ! 9) = unat (crc16_usb data 8)"
    unfolding word16_eq_iff_unat
    by (subst unat_le_to_uint16_unsigned16) (simp add: numeral_eq_Suc)
  have psz: "unat (le_to_uint16 data 1) = le_unsigned16 (data ! 1) (data ! 2)"
    by (subst unat_le_to_uint16_unsigned16) (simp add: numeral_eq_Suc)
  show ?thesis
    unfolding unmarshall_command_frame_Some psz crc
    by (auto simp: Let_def)
qed

section \<open>Frame codec: decoding commands\<close>

text \<open>
  Claim C3. On a byte sequence \<open>data\<close> of its full length and a present \<open>cmd\<close>,
  \<open>unmarshall_command_frame\<close> fails (returns -1) if and only if the length is under 10,
  or the first byte is not 0x01, or the little-endian \<open>payload_size\<close> at offset 1 is not
  5, or the length is under \<open>1 + 2 + payload_size + 2\<close>, or the little-endian CRC field
  after the payload differs from \<open>crc16_usb\<close> over the bytes before it. A failure leaves
  \<open>*cmd\<close> as it was. Otherwise it returns 0 and a command whose action is payload byte
  0, whose temperature is the signed little-endian value of payload bytes 1 and 2 and
  whose duration is the signed little-endian value of payload bytes 3 and 4.
\<close>

theorem unmarshall_command_frame_result:
  "case unmarshall_command_frame (Some data) (length data) (Some cmd) of
     (rc, cmd') \<Rightarrow>
       (let payload_size = le_unsigned16 (data ! 1) (data ! 2)
        in rc = - 1 \<longleftrightarrow>
             length data < 10 \<or>
             data ! 0 \<noteq> 0x01 \<or>
             payload_size \<noteq> 5 \<or>
             length data < 1 + 2 + payload_size + 2 \<or>
             le_unsigned16 (data ! (3 + payload_size)) (data ! (3 + payload_size + 1)) \<noteq>
               unat (crc16_usb data (3 + payload_size))) \<and>
       (rc = - 1 \<longrightarrow> cmd' = Some cmd) \<and>
       (rc \<noteq> - 1 \<longrightarrow> rc = 0 \<and>
          (case cmd' of
             None \<Rightarrow> False
           | Some c \<Rightarrow>
               action c = data ! 3 \<and>
               sint (temperature c) = le_signed16 (data ! 4) (data ! 5) \<and>
               sint (duration c) = le_signed16 (data ! 6) (data ! 7)))"
proof -
  have t: "sint (le_to_int16 data 4) = le_signed16 (data ! 4) (data ! 5)"
    by (subst sint_le_to_int16) (simp add: numeral_eq_Suc)
  have d: "sint (le_to_int16 data 6) = le_signed16 (data ! 6) (data ! 7)"
    by (subst sint_le_to_int16) (simp add: numeral_eq_Suc)
  show ?thesis
    unfolding unmarshall_command_frame_wire
    by (auto simp: Let_def t d)
qed

text \<open>
  The decoder at the frame of the repository's test for a negative temperature (Start,
  -10 degrees, 300 seconds, CRC 0x40C8), which decodes, and at the same frame with one bit
  of the CRC field flipped, which fails.
\<close>

theorem unmarshall_command_frame_result_witness:
  "(let cmd = \<lparr>action = 0, temperature = 0, duration = 0\<rparr>;
        valid = [0x01, 0x05, 0x00, 0x01, 0xF6, 0xFF, 0x2C, 0x01, 0xC8, 0x40];
        flipped = [0x01, 0x05, 0x00, 0x01, 0xF6, 0xFF, 0x2C, 0x01, 0xC9, 0x40]
    in unmarshall_command_frame (Some valid) (length valid) (Some cmd) =
         (0, Some \<lparr>action = 1, temperature = - 10, duration = 300\<rparr>) \<and>
       le_unsigned16 (valid ! 1) (valid ! 2) = 5 \<and>
       le_unsigned16 (valid ! 8) (valid ! 9) = unat (crc16_usb valid 8) \<and>
       le_signed16 (valid ! 4) (valid ! 5) = - 10 \<and>
       le_signed16 (valid ! 6) (valid ! 7) = 300 \<and>
       unmarshall_command_frame (Some flipped) (length flipped) (Some cmd) = (- 1, Some cmd) \<and>
       le_unsigned16 (flipped ! 8) (flipped ! 9) \<noteq> unat (crc16_usb flipped 8))"
proof -
  have evaluated: ?thesis
    by code_simp
  from unmarshall_command_frame_result
         [where data = "[0x01, 0x05, 0x00, 0x01, 0xF6, 0xFF, 0x2C, 0x01, 0xC8, 0x40]"
            and cmd = "\<lparr>action = 0, temperature = 0, duration = 0\<rparr>"]
       evaluated
  show ?thesis
    by (rule conjunct2 [OF conjI])
qed

section \<open>Frame codec: encoding events\<close>

text \<open>
  Claim C4. With event and buffer present and the buffer passed with its full length,
  \<open>marshall_event_frame\<close> fails (returns -1, buffer untouched) if and only if the buffer
  has fewer than 14 bytes. Otherwise it returns 14, and the buffer then holds 0x02 at
  offset 0, the payload size 9 little-endian at offsets 1 and 2, the 9-byte payload at
  offsets 3 to 11 and, at offsets 12 and 13, the little-endian \<open>crc16_usb\<close> of the first
  12 bytes; the bytes from offset 14 on are unchanged. The payload is the event: its state
  at offset 3, then \<open>current_temperature\<close> at offsets 4 and 5, \<open>remaining_time\<close> at 6 and
  7, \<open>programmed_duration\<close> at 8 and 9 and \<open>programmed_temperature\<close> at 10 and 11, each
  signed little-endian.
\<close>

theorem marshall_event_frame_result:
  "case marshall_event_frame (Some event) (Some buffer) (length buffer) of
     (rc, buffer') \<Rightarrow>
       (rc = - 1 \<longleftrightarrow> length buffer < 14) \<and>
       (rc = - 1 \<longrightarrow> buffer' = Some buffer) \<and>
       (rc \<noteq> - 1 \<longrightarrow> rc = 14 \<and>
          (case buffer' of
             None \<Rightarrow> False
           | Some b \<Rightarrow>
               length b = length buffer \<and>
               b ! 0 = 0x02 \<and>
               le_unsigned16 (b ! 1) (b ! 2) = 9 \<and>
               b ! 3 = e_state event \<and>
               le_signed16 (b ! 4) (b ! 5) = sint (e_current_temperature event) \<and>
               le_signed16 (b ! 6) (b ! 7) = sint (e_remaining_time event) \<and>
               le_signed16 (b ! 8) (b ! 9) = sint (e_programmed_duration event) \<and>
               le_signed16 (b ! 10) (b ! 11) = sint (e_programmed_temperature event) \<and>
               le_unsigned16 (b ! 12) (b ! 13) = unat (crc16_usb b 12) \<and>
               drop 14 b = drop 14 buffer))"
proof (cases "length buffer < 14")
  case True
  then show ?thesis
    by (simp add: marshall_event_frame_short del: marshall_event_frame.simps)
next
  case False
  then have ge: "14 \<le> length buffer" by simp
  from ge obtain b where
    b: "marshall_event_frame (Some event) (Some buffer) (length buffer) = (14, Some b)"
       "take 12 b =
       [0x02, 0x09, 0x00, e_state event,
        ucast (e_current_temperature event AND 0xFF),
        ucast (drop_bit 8 (e_current_temperature event) AND 0xFF),
        ucast (e_remaining_time event AND 0xFF),
        ucast (drop_bit 8 (e_remaining_time event) AND 0xFF),
        ucast (e_programmed_duration event AND 0xFF),
        ucast (drop_bit 8 (e_programmed_duration event) AND 0xFF),
        ucast (e_programmed_temperature event AND 0xFF),
        ucast (drop_bit 8 (e_programmed_temperature event) AND 0xFF)]"
       "b ! 12 = ucast (crc16_usb b 12 AND 0xFF)"
       "b ! 13 = ucast (drop_bit 8 (crc16_usb b 12) AND 0xFF)"
       "drop 14 b = drop 14 buffer"
       "length b = length buffer"
    by (rule marshall_event_frame_ok)
  have h0: "b ! 0 = 0x02"
    by (simp add: nth_take_12 [of 0 b] b(2))
  have "b ! 1 = 0x09" and "b ! 2 = 0x00"
    using nth_take_12 [of 1 b] nth_take_12 [of 2 b] by (simp_all add: b(2))
  then have h1: "le_unsigned16 (b ! 1) (b ! 2) = 9"
    by (simp add: le_unsigned16_def)
  have p0: "b ! 3 = e_state event"
    by (simp add: nth_take_12 [of 3 b] b(2))
  have p1: "le_signed16 (b ! 4) (b ! 5) = sint (e_current_temperature event)"
    by (simp add: nth_take_12 [of 4 b] nth_take_12 [of 5 b] b(2) le_signed16_bytes)
  have p2: "le_signed16 (b ! 6) (b ! 7) = sint (e_remaining_time event)"
    by (simp add: nth_take_12 [of 6 b] nth_take_12 [of 7 b] b(2) le_signed16_bytes)
  have p3: "le_signed16 (b ! 8) (b ! 9) = sint (e_programmed_duration event)"
    by (simp add: nth_take_12 [of 8 b] nth_take_12 [of 9 b] b(2) le_signed16_bytes)
  have p4: "le_signed16 (b ! 10) (b ! 11) = sint (e_programmed_temperature event)"
    by (simp add: nth_take_12 [of 10 b] nth_take_12 [of 11 b] b(2) le_signed16_bytes)
  have crc: "le_unsigned16 (b ! 12) (b ! 13) = unat (crc16_usb b 12)"
    by (simp only: b(3) b(4) le_unsigned16_bytes)
  show ?thesis
    using False h0 h1 p0 p1 p2 p3 p4 crc b(5) b(6)
    by (simp add: b(1) del: marshall_event_frame.simps)
qed

text \<open>
  The encoder at the Baking event of the repository's test (180 degrees, 300 seconds left,
  programmed 600 seconds at 180 degrees) with a 16-byte buffer, and with a 5-byte buffer.
\<close>

theorem marshall_event_frame_result_witness:
  "(let event = \<lparr>e_state = 2, e_current_temperature = 180, e_remaining_time = 300,
            e_programmed_duration = 600, e_programmed_temperature = 180\<rparr>;
        roomy = replicate 16 0xEE;
        short = replicate 5 0x00
    in marshall_event_frame (Some event) (Some roomy) (length roomy) =
         (14, Some [0x02, 0x09, 0x00, 0x02, 0xB4, 0x00, 0x2C, 0x01, 0x58, 0x02, 0xB4, 0x00,
                    0xA0, 0x8D, 0xEE, 0xEE]) \<and>
       crc16_usb [0x02, 0x09, 0x00, 0x02, 0xB4, 0x00, 0x2C, 0x01, 0x58, 0x02, 0xB4, 0x00] 12 =
         0x8DA0 \<and>
       length short < 14 \<and>
       marshall_event_frame (Some event) (Some short) (length short) = (- 1, Some short))"
proof -
  have evaluated: ?thesis
    by code_simp
  from marshall_event_frame_result
         [where event = "\<lparr>e_state = 2, e_current_temperature = 180, e_remaining_time = 300,
            e_programmed_duration = 600, e_programmed_temperature = 180\<rparr>"
            and buffer = "replicate 16 0xEE"]
       evaluated
  show ?thesis
    by (rule conjunct2 [OF conjI])
qed

text \<open>
  Claim C8, as stated, fails: the data model lists \<open>programmed_temperature\<close> before
  \<open>programmed_duration\<close>, the encoder writes them in the order of the packed struct,
  duration first. For an event with programmed temperature 180 and duration 600, payload
  bytes 5 and 6 (frame offsets 8 and 9) are 58 02, the value 600, and payload bytes 7 and 8
  (frame offsets 10 and 11) are B4 00, the value 180.
\<close>

theorem marshall_event_frame_order_counterexample:
  "marshall_event_frame
     (Some \<lparr>e_state = 2, e_current_temperature = 180, e_remaining_time = 300,
             e_programmed_duration = 600, e_programmed_temperature = 180\<rparr>)
     (Some (replicate 14 0x00)) 14 =
     (14, Some [0x02, 0x09, 0x00, 0x02, 0xB4, 0x00, 0x2C, 0x01, 0x58, 0x02, 0xB4, 0x00,
                0xA0, 0x8D]) \<and>
   le_signed16 0x58 0x02 = 600 \<and> le_signed16 0xB4 0x00 = 180"
  by code_simp

text \<open>
  Claim C8, amended. On a buffer of at least 14 bytes \<open>marshall_event_frame\<close> writes the
  payload in the order of the struct \<open>EventPayload\<close>: state (1 byte), then
  \<open>current_temperature\<close>, \<open>remaining_time\<close>, \<open>programmed_duration\<close> and
  \<open>programmed_temperature\<close>, each signed 16-bit little-endian.
\<close>

theorem marshall_event_frame_payload:
  assumes "14 \<le> length buffer"
  shows "case marshall_event_frame (Some event) (Some buffer) (length buffer) of
     (rc, None) \<Rightarrow> False
   | (rc, Some b) \<Rightarrow>
       b ! 3 = e_state event \<and>
       le_signed16 (b ! 4) (b ! 5) = sint (e_current_temperature event) \<and>
       le_signed16 (b ! 6) (b ! 7) = sint (e_remaining_time event) \<and>
       le_signed16 (b ! 8) (b ! 9) = sint (e_programmed_duration event) \<and>
       le_signed16 (b ! 10) (b ! 11) = sint (e_programmed_temperature event)"
proof -
  from assms obtain b where
    b: "marshall_event_frame (Some event) (Some buffer) (length buffer) = (14, Some b)"
       "take 12 b =
       [0x02, 0x09, 0x00, e_state event,
        ucast (e_current_temperature event AND 0xFF),
        ucast (drop_bit 8 (e_current_temperature event) AND 0xFF),
        ucast (e_remaining_time event AND 0xFF),
        ucast (drop_bit 8 (e_remaining_time event) AND 0xFF),
        ucast (e_programmed_duration event AND 0xFF),
        ucast (drop_bit 8 (e_programmed_duration event) AND 0xFF),
        ucast (e_programmed_temperature event AND 0xFF),
        ucast (drop_bit 8 (e_programmed_temperature event) AND 0xFF)]"
    by (rule marshall_event_frame_ok)
  have "b ! 3 = e_state event"
    by (simp add: nth_take_12 [of 3 b] b(2))
  moreover have "le_signed16 (b ! 4) (b ! 5) = sint (e_current_temperature event)"
    by (simp add: nth_take_12 [of 4 b] nth_take_12 [of 5 b] b(2) le_signed16_bytes)
  moreover have "le_signed16 (b ! 6) (b ! 7) = sint (e_remaining_time event)"
    by (simp add: nth_take_12 [of 6 b] nth_take_12 [of 7 b] b(2) le_signed16_bytes)
  moreover have "le_signed16 (b ! 8) (b ! 9) = sint (e_programmed_duration event)"
    by (simp add: nth_take_12 [of 8 b] nth_take_12 [of 9 b] b(2) le_signed16_bytes)
  moreover have "le_signed16 (b ! 10) (b ! 11) = sint (e_programmed_temperature event)"
    by (simp add: nth_take_12 [of 10 b] nth_take_12 [of 11 b] b(2) le_signed16_bytes)
  ultimately show ?thesis
    by (simp add: b(1) del: marshall_event_frame.simps)
qed

text \<open>
  The payload of the same Baking event in a buffer of exactly 14 bytes.
\<close>

theorem marshall_event_frame_payload_witness:
  "(let event = \<lparr>e_state = 2, e_current_temperature = 180, e_remaining_time = 300,
            e_programmed_duration = 600, e_programmed_temperature = 180\<rparr>;
        buffer = replicate 14 0x00
    in 14 \<le> length buffer \<and>
       (case marshall_event_frame (Some event) (Some buffer) (length buffer) of
          (rc, None) \<Rightarrow> False
        | (rc, Some b) \<Rightarrow>
            take 9 (drop 3 b) = [0x02, 0xB4, 0x00, 0x2C, 0x01, 0x58, 0x02, 0xB4, 0x00] \<and>
            le_signed16 (b ! 4) (b ! 5) = 180 \<and> le_signed16 (b ! 6) (b ! 7) = 300 \<and>
            le_signed16 (b ! 8) (b ! 9) = 600 \<and> le_signed16 (b ! 10) (b ! 11) = 180))"
proof -
  have hyp: "14 \<le> length (replicate 14 (0x00 :: uint8_t))"
    by simp
  have evaluated: ?thesis
    by code_simp
  from marshall_event_frame_payload
         [where event = "\<lparr>e_state = 2, e_current_temperature = 180, e_remaining_time = 300,
            e_programmed_duration = 600, e_programmed_temperature = 180\<rparr>",
          OF hyp]
       evaluated
  show ?thesis
    by (rule conjunct2 [OF conjI])
qed

section \<open>Frame codec: how errors are reported\<close>

text \<open>
  Claim C9, as stated, fails: an undersized input, a wrong message type, a wrong payload
  size and a CRC mismatch all give the same result, -1 with \<open>*cmd\<close> untouched. The four
  inputs are the valid frame 01 05 00 01 F6 FF 2C 01 C8 40 (whose CRC is 0x40C8) with its
  last byte cut off, with message type 0x02, with declared payload size 6 and with the
  CRC field changed to 0x40C9.
\<close>

theorem frame_errors_same_result_counterexample:
  "unmarshall_command_frame
     (Some [0x01, 0x05, 0x00, 0x01, 0xF6, 0xFF, 0x2C, 0x01, 0xC8]) 9
     (Some \<lparr>action = 0, temperature = 0, duration = 0\<rparr>) =
     (- 1, Some \<lparr>action = 0, temperature = 0, duration = 0\<rparr>) \<and>
   unmarshall_command_frame
     (Some [0x02, 0x05, 0x00, 0x01, 0xF6, 0xFF, 0x2C, 0x01, 0xC8, 0x40]) 10
     (Some \<lparr>action = 0, temperature = 0, duration = 0\<rparr>) =
     (- 1, Some \<lparr>action = 0, temperature = 0, duration = 0\<rparr>) \<and>
   unmarshall_command_frame
     (Some [0x01, 0x06, 0x00, 0x01, 0xF6, 0xFF, 0x2C, 0x01, 0xC8, 0x40]) 10
     (Some \<lparr>action = 0, temperature = 0, duration = 0\<rparr>) =
     (- 1, Some \<lparr>action = 0, temperature = 0, duration = 0\<rparr>) \<and>
   unmarshall_command_frame
     (Some [0x01, 0x05, 0x00, 0x01, 0xF6, 0xFF, 0x2C, 0x01, 0xC9, 0x40]) 10
     (Some \<lparr>action = 0, temperature = 0, duration = 0\<rparr>) =
     (- 1, Some \<lparr>action = 0, temperature = 0, duration = 0\<rparr>) \<and>
   crc16_usb [0x01, 0x05, 0x00, 0x01, 0xF6, 0xFF, 0x2C, 0x01] 8 = 0x40C8"
  by code_simp

text \<open>
  Claim C9, amended. Every frame error is reported by the one value -1: each of the five
  decode errors makes \<open>unmarshall_command_frame\<close> return -1 and leave \<open>*cmd\<close> as it was,
  and an undersized buffer makes \<open>marshall_event_frame\<close> return -1 and leave the buffer
  as it was. The result does not tell the causes apart.
\<close>

theorem frame_errors_generic:
  "((let payload_size = le_unsigned16 (data ! 1) (data ! 2)
     in length data < 10 \<or>
        data ! 0 \<noteq> 0x01 \<or>
        payload_size \<noteq> 5 \<or>
        length data < 1 + 2 + payload_size + 2 \<or>
        le_unsigned16 (data ! (3 + payload_size)) (data ! (3 + payload_size + 1)) \<noteq>
          unat (crc16_usb data (3 + payload_size))) \<longrightarrow>
    unmarshall_command_frame (Some data) (length data) (Some cmd) = (- 1, Some cmd)) \<and>
   (length buffer < 14 \<longrightarrow>
    marshall_event_frame (Some event) (Some buffer) (length buffer) = (- 1, Some buffer))"
  unfolding unmarshall_command_frame_wire
  by (auto simp: Let_def marshall_event_frame_short simp del: marshall_event_frame.simps)

text \<open>
  The two error results at a frame with message type 0x02 and at a 13-byte buffer.
\<close>

theorem frame_errors_generic_witness:
  "(let cmd = \<lparr>action = 0, temperature = 0, duration = 0\<rparr>;
        wrong_type = [0x02, 0x05, 0x00, 0x01, 0xF6, 0xFF, 0x2C, 0x01, 0xC8, 0x40];
        event = \<lparr>e_state = 2, e_current_temperature = 180, e_remaining_time = 300,
            e_programmed_duration = 600, e_programmed_temperature = 180\<rparr>;
        short = replicate 13 0x00
    in wrong_type ! 0 \<noteq> 0x01 \<and>
       unmarshall_command_frame (Some wrong_type) (length wrong_type) (Some cmd) =
         (- 1, Some cmd) \<and>
       length short < 14 \<and>
       marshall_event_frame (Some event) (Some short) (length short) = (- 1, Some short))"
proof -
  have evaluated: ?thesis
    by code_simp
  from frame_errors_generic
         [where data = "[0x02, 0x05, 0x00, 0x01, 0xF6, 0xFF, 0x2C, 0x01, 0xC8, 0x40]"
            and cmd = "\<lparr>action = 0, temperature = 0, duration = 0\<rparr>"
            and event = "\<lparr>e_state = 2, e_current_temperature = 180, e_remaining_time = 300,
            e_programmed_duration = 600, e_programmed_temperature = 180\<rparr>"
            and buffer = "replicate 13 0x00"]
       evaluated
  show ?thesis
    by (rule conjunct2 [OF conjI])
qed

end
